theory Spec2Isabelle
  imports Complex_Main
begin

section \<open>JavaScript numbers\<close>

text \<open>
  The simulator computes with JavaScript numbers. Finite numbers are modelled as reals,
  so rounding is idealised away; the three non-finite values are kept where the code
  tests for them (\<^verbatim>\<open>Number.isFinite\<close>, \<^verbatim>\<open>Number.isInteger\<close> in the mission validator).
\<close>

datatype jsnum = Num real | PosInf | NegInf | NaN

fun isFinite :: "jsnum \<Rightarrow> bool" where
  "isFinite (Num r) = True"
| "isFinite _ = False"

definition isInt :: "real \<Rightarrow> bool" where
  "isInt r = (of_int \<lfloor>r\<rfloor> = r)"

fun isInteger :: "jsnum \<Rightarrow> bool" where
  "isInteger (Num r) = isInt r"
| "isInteger _ = False"

text \<open>\<^verbatim>\<open>x >= 0\<close>, \<^verbatim>\<open>x < n\<close> and \<^verbatim>\<open>x <= 0\<close> on numbers: every comparison with NaN is false.\<close>

fun js_ge :: "jsnum \<Rightarrow> real \<Rightarrow> bool" where
  "js_ge (Num r) c = (r \<ge> c)"
| "js_ge PosInf c = True"
| "js_ge _ c = False"

fun js_lt :: "jsnum \<Rightarrow> real \<Rightarrow> bool" where
  "js_lt (Num r) c = (r < c)"
| "js_lt NegInf c = True"
| "js_lt _ c = False"

fun js_le :: "jsnum \<Rightarrow> real \<Rightarrow> bool" where
  "js_le (Num r) c = (r \<le> c)"
| "js_le NegInf c = True"
| "js_le _ c = False"

text \<open>A property that may be absent (\<^verbatim>\<open>undefined\<close>), \<^verbatim>\<open>null\<close>, or hold a value.\<close>

datatype 'a field = Absent | Null | Val 'a

definition MPH_TO_MPS :: real where
  "MPH_TO_MPS = 0.44704"

definition mphToMps :: "real \<Rightarrow> real" where
  "mphToMps mph = mph * MPH_TO_MPS"

definition mpsToMph :: "real \<Rightarrow> real" where
  "mpsToMph mps = mps / MPH_TO_MPS"

definition LANE_WIDTH_METERS :: real where
  "LANE_WIDTH_METERS = 3.6"

section \<open>Lane and scene catalog\<close>

datatype LaneType = general | express | exit_lane | carpool

record TrafficLaneProfile =
  lp_laneIndex :: real
  lp_type :: LaneType
  lp_targetSpeedMph :: real
  lp_minSpeedMph :: real
  lp_maxSpeedMph :: real
  lp_preferredSpacingMeters :: real
  lp_spawnRatePerMinute :: real

text \<open>\<^verbatim>\<open>LANE_TYPE_PROFILES\<close>: target speed range, density per mile, preferred spacing.\<close>

fun LANE_TYPE_PROFILES :: "LaneType \<Rightarrow> (real \<times> real) \<times> real \<times> real" where
  "LANE_TYPE_PROFILES express = ((66, 74), 18, 45)"
| "LANE_TYPE_PROFILES carpool = ((60, 70), 20, 38)"
| "LANE_TYPE_PROFILES general = ((50, 63), 28, 32)"
| "LANE_TYPE_PROFILES exit_lane = ((25, 40), 14, 28)"

text \<open>The lanes of a scene, as (index, type) pairs; speed limit and description are unused.\<close>

definition coastal101Scene :: "(real \<times> LaneType) list" where
  "coastal101Scene = [(0, express), (1, carpool), (2, general), (3, general), (4, general)]"

definition buildLaneProfile :: "real \<times> LaneType \<Rightarrow> TrafficLaneProfile" where
  "buildLaneProfile lane =
     (case LANE_TYPE_PROFILES (snd lane) of ((minTarget, maxTarget), density, spacing) \<Rightarrow>
        \<lparr> lp_laneIndex = fst lane, lp_type = snd lane,
          lp_targetSpeedMph = (minTarget + maxTarget) / 2,
          lp_minSpeedMph = minTarget, lp_maxSpeedMph = maxTarget,
          lp_preferredSpacingMeters = spacing,
          lp_spawnRatePerMinute = max 4 (density * 0.6) \<rparr>)"

definition buildLaneProfiles :: "(real \<times> LaneType) list \<Rightarrow> TrafficLaneProfile list" where
  "buildLaneProfiles lanes = map buildLaneProfile lanes"

text \<open>
  \<^verbatim>\<open>xs[i]\<close> for a number \<open>i\<close>: the element when \<open>i\<close> is an integer within the array,
  \<^verbatim>\<open>undefined\<close> otherwise.
\<close>

definition at_index :: "'a list \<Rightarrow> real \<Rightarrow> 'a option" where
  "at_index xs i =
     (if isInt i \<and> 0 \<le> i \<and> i < real (length xs) then Some (xs ! nat \<lfloor>i\<rfloor>) else None)"

section \<open>Mission state machine\<close>

datatype MissionSource = src_system | src_manual | src_voice | src_intent | src_rl
datatype DrivingMissionMode = hold | cruise | lane_change | overtake
datatype LaneChangeDirection = left | right

record DrivingMissionSnapshot =
  ms_targetLaneIndex :: "real option"
  ms_cruiseTargetSpeedMph :: real
  ms_cruiseGapMeters :: real
  ms_mode :: DrivingMissionMode
  ms_returnLaneIndex :: "real option"
  ms_laneChangeDirection :: "LaneChangeDirection option"
  ms_source :: MissionSource
  ms_note :: "string option"
  ms_updatedAt :: real

text \<open>
  A mission patch as it reaches \<^verbatim>\<open>updateMission\<close> at run time: the mode and the direction
  are strings (the validator checks them against its lists), the numeric fields are
  JavaScript numbers, and every field may be absent.
\<close>

record DrivingMissionUpdate =
  upd_targetLaneIndex :: "jsnum field"
  upd_cruiseTargetSpeedMph :: "jsnum option"
  upd_cruiseGapMeters :: "jsnum option"
  upd_source :: "MissionSource option"
  upd_note :: "string option"
  upd_mode :: "string option"
  upd_returnLaneIndex :: "jsnum field"
  upd_laneChangeDirection :: "string field"

definition emptyUpdate :: DrivingMissionUpdate where
  "emptyUpdate = \<lparr> upd_targetLaneIndex = Absent, upd_cruiseTargetSpeedMph = None,
     upd_cruiseGapMeters = None, upd_source = None, upd_note = None, upd_mode = None,
     upd_returnLaneIndex = Absent, upd_laneChangeDirection = Absent \<rparr>"

datatype error =
    InvalidLaneIndex jsnum
  | InvalidCruiseTargetSpeedMph
  | InvalidCruiseGapMeters
  | InvalidReturnLaneIndex jsnum
  | InvalidMissionMode string
  | InvalidLaneChangeDirection
  | InvalidSpawnLaneIndex real

definition parseMode :: "string \<Rightarrow> DrivingMissionMode option" where
  "parseMode s =
     (if s = ''hold'' then Some hold
      else if s = ''cruise'' then Some cruise
      else if s = ''lane_change'' then Some lane_change
      else if s = ''overtake'' then Some overtake
      else None)"

definition parseDirection :: "string \<Rightarrow> LaneChangeDirection option" where
  "parseDirection s =
     (if s = ''left'' then Some left else if s = ''right'' then Some right else None)"

fun the_num :: "jsnum \<Rightarrow> real" where
  "the_num (Num r) = r"
| "the_num _ = 0"

text \<open>The six validation blocks of \<^verbatim>\<open>updateMission\<close>, in the order of the source.\<close>

definition applyTargetLane ::
  "nat \<Rightarrow> DrivingMissionUpdate \<Rightarrow> DrivingMissionSnapshot \<Rightarrow> error + DrivingMissionSnapshot" where
  "applyTargetLane laneCount update next =
     (case upd_targetLaneIndex update of
        Absent \<Rightarrow> Inr next
      | Null \<Rightarrow> Inr (next\<lparr>ms_targetLaneIndex := None\<rparr>)
      | Val v \<Rightarrow>
          if isInteger v \<and> js_ge v 0 \<and> js_lt v (real laneCount)
          then Inr (next\<lparr>ms_targetLaneIndex := Some (the_num v)\<rparr>)
          else Inl (InvalidLaneIndex v))"

definition applyCruiseSpeed ::
  "DrivingMissionUpdate \<Rightarrow> DrivingMissionSnapshot \<Rightarrow> error + DrivingMissionSnapshot" where
  "applyCruiseSpeed update next =
     (case upd_cruiseTargetSpeedMph update of
        None \<Rightarrow> Inr next
      | Some v \<Rightarrow>
          if \<not> isFinite v then Inl InvalidCruiseTargetSpeedMph
          else Inr (next\<lparr>ms_cruiseTargetSpeedMph := max 25 (min 95 (the_num v))\<rparr>))"

definition applyCruiseGap ::
  "DrivingMissionUpdate \<Rightarrow> DrivingMissionSnapshot \<Rightarrow> error + DrivingMissionSnapshot" where
  "applyCruiseGap update next =
     (case upd_cruiseGapMeters update of
        None \<Rightarrow> Inr next
      | Some v \<Rightarrow>
          if \<not> isFinite v \<or> js_le v 0 then Inl InvalidCruiseGapMeters
          else Inr (next\<lparr>ms_cruiseGapMeters := max 8 (min 120 (the_num v))\<rparr>))"

definition applyReturnLane ::
  "nat \<Rightarrow> DrivingMissionUpdate \<Rightarrow> DrivingMissionSnapshot \<Rightarrow> error + DrivingMissionSnapshot" where
  "applyReturnLane laneCount update next =
     (case upd_returnLaneIndex update of
        Absent \<Rightarrow> Inr next
      | Null \<Rightarrow> Inr (next\<lparr>ms_returnLaneIndex := None\<rparr>)
      | Val v \<Rightarrow>
          if isInteger v \<and> js_ge v 0 \<and> js_lt v (real laneCount)
          then Inr (next\<lparr>ms_returnLaneIndex := Some (the_num v)\<rparr>)
          else Inl (InvalidReturnLaneIndex v))"

definition applyMode ::
  "DrivingMissionUpdate \<Rightarrow> DrivingMissionSnapshot \<Rightarrow> error + DrivingMissionSnapshot" where
  "applyMode update next =
     (case upd_mode update of
        None \<Rightarrow> Inr next
      | Some s \<Rightarrow>
          (case parseMode s of
             None \<Rightarrow> Inl (InvalidMissionMode s)
           | Some m \<Rightarrow> Inr (next\<lparr>ms_mode := m\<rparr>)))"

definition applyDirection ::
  "DrivingMissionUpdate \<Rightarrow> DrivingMissionSnapshot \<Rightarrow> error + DrivingMissionSnapshot" where
  "applyDirection update next =
     (case upd_laneChangeDirection update of
        Absent \<Rightarrow> Inr next
      | Null \<Rightarrow> Inr (next\<lparr>ms_laneChangeDirection := None\<rparr>)
      | Val s \<Rightarrow>
          (case parseDirection s of
             None \<Rightarrow> Inl InvalidLaneChangeDirection
           | Some d \<Rightarrow> Inr (next\<lparr>ms_laneChangeDirection := Some d\<rparr>)))"

definition applySourceNote ::
  "DrivingMissionUpdate \<Rightarrow> DrivingMissionSnapshot \<Rightarrow> DrivingMissionSnapshot" where
  "applySourceNote update next =
     (let n1 = (case upd_source update of None \<Rightarrow> next | Some s \<Rightarrow> next\<lparr>ms_source := s\<rparr>)
      in (case upd_note update of None \<Rightarrow> n1 | Some t \<Rightarrow> n1\<lparr>ms_note := Some t\<rparr>))"

definition bind_err :: "error + 'a \<Rightarrow> ('a \<Rightarrow> error + 'b) \<Rightarrow> error + 'b" where
  "bind_err r f = (case r of Inl e \<Rightarrow> Inl e | Inr x \<Rightarrow> f x)"

text \<open>
  The local \<^verbatim>\<open>next\<close> of \<^verbatim>\<open>updateMission\<close>: a copy of the stored mission with a fresh
  timestamp, run through the blocks; a \<^verbatim>\<open>throw\<close> is \<open>Inl\<close>.
\<close>

definition missionNext ::
  "nat \<Rightarrow> DrivingMissionSnapshot \<Rightarrow> real \<Rightarrow> DrivingMissionUpdate \<Rightarrow> error + DrivingMissionSnapshot" where
  "missionNext laneCount mission now update =
     bind_err (applyTargetLane laneCount update (mission\<lparr>ms_updatedAt := now\<rparr>)) (\<lambda>n1.
     bind_err (applyCruiseSpeed update n1) (\<lambda>n2.
     bind_err (applyCruiseGap update n2) (\<lambda>n3.
     bind_err (applyReturnLane laneCount update n3) (\<lambda>n4.
     bind_err (applyMode update n4) (\<lambda>n5.
     bind_err (applyDirection update n5) (\<lambda>n6.
     Inr (applySourceNote update n6)))))))"


section \<open>Ambient randomness\<close>

text \<open>
  \<^verbatim>\<open>Math.random()\<close> and \<^verbatim>\<open>randomUUID()\<close> are inputs from the environment: an entropy
  source fixes the sequence of values they return, and the service counts its calls.
  \<^verbatim>\<open>Math.random()\<close> lies in \<open>[0, 1)\<close>; an entry of the sequence outside that range is read
  as 0.
\<close>

record entropy =
  randoms :: "nat \<Rightarrow> real"
  uuids :: "nat \<Rightarrow> string"

definition random :: "entropy \<Rightarrow> nat \<Rightarrow> real" where
  "random W k = (let r = randoms W k in if 0 \<le> r \<and> r < 1 then r else 0)"

definition randBetween :: "real \<Rightarrow> real \<Rightarrow> real \<Rightarrow> real" where
  "randBetween lo hi r = lo + r * (hi - lo)"

definition pickRandom :: "'a list \<Rightarrow> real \<Rightarrow> 'a" where
  "pickRandom vals r = vals ! nat \<lfloor>r * real (length vals)\<rfloor>"

section \<open>Simulation service: state and caller operations\<close>

datatype VehicleKind = sedan | suv | truck | motorcycle
datatype TrafficBehaviorProfile = steady | assertive | cautious

text \<open>\<^verbatim>\<open>VEHICLE_DIMENSIONS\<close>: type, length, width.\<close>

definition VEHICLE_DIMENSIONS :: "(VehicleKind \<times> real \<times> real) list" where
  "VEHICLE_DIMENSIONS = [(sedan, 4.5, 1.8), (suv, 4.9, 2), (truck, 6.5, 2.5), (motorcycle, 2.2, 0.8)]"

definition BEHAVIOR_PROFILES :: "TrafficBehaviorProfile list" where
  "BEHAVIOR_PROFILES = [steady, assertive, cautious]"

definition DESPAWN_DISTANCE_METERS :: real where
  "DESPAWN_DISTANCE_METERS = 2200"

definition RESPAWN_OFFSET_METERS :: real where
  "RESPAWN_OFFSET_METERS = - 800"

fun randomBias :: "TrafficBehaviorProfile \<Rightarrow> real" where
  "randomBias assertive = 1.08"
| "randomBias cautious = 0.92"
| "randomBias steady = 1"

record TrafficVehicleState =
  tv_id :: string
  tv_laneIndex :: real
  tv_positionZ :: real
  tv_speedMps :: real
  tv_targetSpeedMps :: real
  tv_type :: VehicleKind
  tv_behavior :: TrafficBehaviorProfile
  tv_lengthMeters :: real
  tv_widthMeters :: real

text \<open>
  The player snapshot without its constant fields (id, type, behavior); the position
  is the triple (x, y, z). Player numbers are finite in this model.
\<close>

record PlayerSnapshot =
  pl_laneIndex :: real
  pl_position :: "real \<times> real \<times> real"
  pl_speedMps :: real
  pl_speedMph :: real
  pl_lengthMeters :: real
  pl_widthMeters :: real
  pl_steerAngleDeg :: real
  pl_accelerationMps2 :: real

record SimulationService =
  sv_laneProfiles :: "TrafficLaneProfile list"
  sv_vehicles :: "TrafficVehicleState list"
  sv_player :: PlayerSnapshot
  sv_mission :: DrivingMissionSnapshot
  sv_lastTick :: real
  sv_randomCalls :: nat
  sv_uuidCalls :: nat

text \<open>The active scene is always the first scene of the catalog.\<close>

definition activeScene :: "(real \<times> LaneType) list" where
  "activeScene = coastal101Scene"

definition getLaneCenter :: "real \<Rightarrow> real" where
  "getLaneCenter laneIndex =
     (let laneCount = length activeScene
      in if laneCount = 0 then 0
         else (laneIndex - (real laneCount - 1) / 2) * LANE_WIDTH_METERS)"

definition getLaneCount :: "SimulationService \<Rightarrow> nat" where
  "getLaneCount s = length (sv_laneProfiles s)"

definition getMission :: "SimulationService \<Rightarrow> DrivingMissionSnapshot" where
  "getMission s = sv_mission s"

text \<open>
  \<^verbatim>\<open>updateMission\<close>: the stored mission is assigned once, after every block has passed;
  a throw leaves the service as it was. The result pairs the outcome with the service
  after the call.
\<close>

definition updateMission ::
  "SimulationService \<Rightarrow> real \<Rightarrow> DrivingMissionUpdate \<Rightarrow>
   (error + DrivingMissionSnapshot) \<times> SimulationService" where
  "updateMission s now update =
     (case missionNext (length (sv_laneProfiles s)) (sv_mission s) now update of
        Inl e \<Rightarrow> (Inl e, s)
      | Inr next \<Rightarrow> (Inr next, s\<lparr>sv_mission := next\<rparr>))"

record VehicleSnapshot =
  vs_id :: string
  vs_laneIndex :: real
  vs_position :: "real \<times> real \<times> real"
  vs_speedMps :: real
  vs_speedMph :: real
  vs_lengthMeters :: real
  vs_widthMeters :: real
  vs_type :: VehicleKind
  vs_behavior :: TrafficBehaviorProfile

record SimulationSnapshot =
  sn_timestamp :: real
  sn_sceneId :: string
  sn_lanes :: "TrafficLaneProfile list"
  sn_player :: PlayerSnapshot
  sn_vehicles :: "VehicleSnapshot list"
  sn_mission :: DrivingMissionSnapshot
  sn_collision :: bool

definition vehicleSnapshot :: "SimulationService \<Rightarrow> TrafficVehicleState \<Rightarrow> VehicleSnapshot" where
  "vehicleSnapshot s vehicle =
     \<lparr> vs_id = tv_id vehicle, vs_laneIndex = tv_laneIndex vehicle,
       vs_position = (getLaneCenter (tv_laneIndex vehicle), 0, tv_positionZ vehicle),
       vs_speedMps = tv_speedMps vehicle, vs_speedMph = mpsToMph (tv_speedMps vehicle),
       vs_lengthMeters = tv_lengthMeters vehicle, vs_widthMeters = tv_widthMeters vehicle,
       vs_type = tv_type vehicle, vs_behavior = tv_behavior vehicle \<rparr>"

text \<open>
  The active scene's id is \<^verbatim>\<open>california-101\<close>. The live service never sets the collision
  flag of its snapshot; it reads as false.
\<close>

definition getSnapshot :: "SimulationService \<Rightarrow> real \<Rightarrow> SimulationSnapshot" where
  "getSnapshot s now =
     \<lparr> sn_timestamp = now, sn_sceneId = ''california-101'', sn_lanes = sv_laneProfiles s,
       sn_player = (sv_player s)\<lparr>pl_position :=
          (getLaneCenter (pl_laneIndex (sv_player s)), 0, snd (snd (pl_position (sv_player s))))\<rparr>,
       sn_vehicles = map (vehicleSnapshot s) (sv_vehicles s),
       sn_mission = sv_mission s, sn_collision = False \<rparr>"

record SpawnInput =
  si_laneIndex :: real
  si_speedMph :: "real option"
  si_positionZ :: "real option"
  si_type :: "VehicleKind option"
  si_behavior :: "TrafficBehaviorProfile option"

text \<open>
  \<^verbatim>\<open>spawnVehicle\<close>: the lane lookup throws before anything is drawn or stored. The draws
  follow the source: dimensions, behavior (only when the input gives none), base speed.
\<close>

definition spawnVehicle ::
  "entropy \<Rightarrow> SimulationService \<Rightarrow> SpawnInput \<Rightarrow> error + (string \<times> SimulationService)" where
  "spawnVehicle W s input =
     (case at_index (sv_laneProfiles s) (si_laneIndex input) of
        None \<Rightarrow> Inl (InvalidSpawnLaneIndex (si_laneIndex input))
      | Some laneProfile \<Rightarrow>
          (let k0 = sv_randomCalls s;
               dims = pickRandom VEHICLE_DIMENSIONS (random W k0);
               k1 = k0 + 1;
               behavior = (case si_behavior input of
                             Some b \<Rightarrow> b
                           | None \<Rightarrow> pickRandom BEHAVIOR_PROFILES (random W k1));
               k2 = (case si_behavior input of Some b \<Rightarrow> k1 | None \<Rightarrow> k1 + 1);
               baseSpeedMph = randBetween (lp_minSpeedMph laneProfile)
                                (lp_maxSpeedMph laneProfile) (random W k2);
               bias = randomBias behavior;
               targetSpeedMph = (case si_speedMph input of
                                   Some v \<Rightarrow> v
                                 | None \<Rightarrow> baseSpeedMph * bias);
               state = \<lparr> tv_id = uuids W (sv_uuidCalls s),
                         tv_laneIndex = si_laneIndex input,
                         tv_positionZ = (case si_positionZ input of
                                           Some z \<Rightarrow> z
                                         | None \<Rightarrow> RESPAWN_OFFSET_METERS),
                         tv_speedMps = mphToMps targetSpeedMph,
                         tv_targetSpeedMps = mphToMps targetSpeedMph,
                         tv_type = (case si_type input of Some t \<Rightarrow> t | None \<Rightarrow> fst dims),
                         tv_behavior = behavior,
                         tv_lengthMeters = fst (snd dims),
                         tv_widthMeters = snd (snd dims) \<rparr>
           in Inr (tv_id state,
                   s\<lparr> sv_vehicles := sv_vehicles s @ [state],
                      sv_randomCalls := k2 + 1,
                      sv_uuidCalls := sv_uuidCalls s + 1 \<rparr>)))"

record PlayerUpdate =
  pu_laneIndex :: "real option"
  pu_position :: "(real \<times> real \<times> real) option"
  pu_positionZ :: "real option"
  pu_speedMps :: "real option"
  pu_speedMph :: "real option"
  pu_lengthMeters :: "real option"
  pu_widthMeters :: "real option"
  pu_steerAngleDeg :: "real option"
  pu_accelerationMps2 :: "real option"

definition orElse :: "'a option \<Rightarrow> 'a \<Rightarrow> 'a" where
  "orElse v d = (case v of Some x \<Rightarrow> x | None \<Rightarrow> d)"

text \<open>\<^verbatim>\<open>updatePlayerState\<close>: the partial is spread over the player without validation.\<close>

definition updatePlayerState :: "SimulationService \<Rightarrow> PlayerUpdate \<Rightarrow> SimulationService" where
  "updatePlayerState s partial =
     (let p = sv_player s;
          n0 = \<lparr> pl_laneIndex = orElse (pu_laneIndex partial) (pl_laneIndex p),
                 pl_position = orElse (pu_position partial) (pl_position p),
                 pl_speedMps = orElse (pu_speedMps partial) (pl_speedMps p),
                 pl_speedMph = orElse (pu_speedMph partial) (pl_speedMph p),
                 pl_lengthMeters = orElse (pu_lengthMeters partial) (pl_lengthMeters p),
                 pl_widthMeters = orElse (pu_widthMeters partial) (pl_widthMeters p),
                 pl_steerAngleDeg = orElse (pu_steerAngleDeg partial) (pl_steerAngleDeg p),
                 pl_accelerationMps2 = orElse (pu_accelerationMps2 partial) (pl_accelerationMps2 p) \<rparr>;
          n1 = (case pu_speedMps partial of
                  Some v \<Rightarrow> n0\<lparr>pl_speedMps := v, pl_speedMph := mpsToMph v\<rparr>
                | None \<Rightarrow>
                    (case pu_speedMph partial of
                       Some m \<Rightarrow> n0\<lparr>pl_speedMph := m, pl_speedMps := mphToMps m\<rparr>
                     | None \<Rightarrow> n0));
          n2 = (case pu_positionZ partial of
                  Some z \<Rightarrow> n1\<lparr>pl_position :=
                     (getLaneCenter (pl_laneIndex n1), fst (snd (pl_position n1)), z)\<rparr>
                | None \<Rightarrow> n1);
          n3 = (case pu_laneIndex partial of
                  Some l \<Rightarrow> n2\<lparr>pl_position :=
                     (getLaneCenter l, fst (snd (pl_position n2)), snd (snd (pl_position n2)))\<rparr>
                | None \<Rightarrow> n2)
      in s\<lparr>sv_player := n3\<rparr>)"

definition emptyPlayerUpdate :: PlayerUpdate where
  "emptyPlayerUpdate = \<lparr> pu_laneIndex = None, pu_position = None, pu_positionZ = None,
     pu_speedMps = None, pu_speedMph = None, pu_lengthMeters = None, pu_widthMeters = None,
     pu_steerAngleDeg = None, pu_accelerationMps2 = None \<rparr>"

text \<open>
  The service as its constructor leaves it before traffic is seeded: the lane profiles of
  the first scene, the initial player (lane 0, 58 mph) and the initial mission.
\<close>

definition initialPlayer :: PlayerSnapshot where
  "initialPlayer =
     \<lparr> pl_laneIndex = 0,
       pl_position = (getLaneCenter 0, 0, 0),
       pl_speedMps = mphToMps 58, pl_speedMph = 58,
       pl_lengthMeters = 4.5, pl_widthMeters = 1.8,
       pl_steerAngleDeg = 0, pl_accelerationMps2 = 0 \<rparr>"

definition initialMission :: "real \<Rightarrow> DrivingMissionSnapshot" where
  "initialMission now =
     \<lparr> ms_targetLaneIndex = Some 0, ms_cruiseTargetSpeedMph = 65, ms_cruiseGapMeters = 32,
       ms_mode = cruise, ms_returnLaneIndex = None, ms_laneChangeDirection = None,
       ms_source = src_system, ms_note = None, ms_updatedAt = now \<rparr>"

definition unseededService :: "real \<Rightarrow> SimulationService" where
  "unseededService now =
     \<lparr> sv_laneProfiles = buildLaneProfiles activeScene,
       sv_vehicles = [],
       sv_player = initialPlayer,
       sv_mission = initialMission now,
       sv_lastTick = now, sv_randomCalls = 0, sv_uuidCalls = 0 \<rparr>"

text \<open>
  \<^verbatim>\<open>seedTraffic\<close>: for every lane of the scene with a profile, \<open>max 1 (round (rate / 60 * 4))\<close>
  vehicles, each with a drawn position, speed and behavior. \<^verbatim>\<open>Math.round\<close> is
  \<open>\<lfloor>x + 1/2\<rfloor>\<close>. The spawn cannot throw here, since the lane has just been looked up.
\<close>

definition seedOne :: "entropy \<Rightarrow> real \<Rightarrow> TrafficLaneProfile \<Rightarrow> SimulationService \<Rightarrow> SimulationService" where
  "seedOne W laneIndex profile s =
     (let k = sv_randomCalls s;
          zPosition = randBetween (- 400) 900 (random W k);
          speedMph = randBetween (lp_minSpeedMph profile) (lp_maxSpeedMph profile) (random W (k + 1));
          behavior = pickRandom BEHAVIOR_PROFILES (random W (k + 2))
      in case spawnVehicle W (s\<lparr>sv_randomCalls := k + 3\<rparr>)
                \<lparr> si_laneIndex = laneIndex, si_speedMph = Some speedMph,
                  si_positionZ = Some zPosition, si_type = None, si_behavior = Some behavior \<rparr> of
           Inl e \<Rightarrow> s\<lparr>sv_randomCalls := k + 3\<rparr>
         | Inr (vid, s') \<Rightarrow> s')"

fun seedMany :: "entropy \<Rightarrow> real \<Rightarrow> TrafficLaneProfile \<Rightarrow> nat \<Rightarrow> SimulationService \<Rightarrow> SimulationService" where
  "seedMany W laneIndex profile 0 s = s"
| "seedMany W laneIndex profile (Suc n) s = seedMany W laneIndex profile n (seedOne W laneIndex profile s)"

definition seedLane :: "entropy \<Rightarrow> SimulationService \<Rightarrow> real \<times> LaneType \<Rightarrow> SimulationService" where
  "seedLane W s lane =
     (case at_index (sv_laneProfiles s) (fst lane) of
        None \<Rightarrow> s
      | Some profile \<Rightarrow>
          (let vehiclesPerKm = lp_spawnRatePerMinute profile / 60;
               seedCount = max 1 (nat \<lfloor>vehiclesPerKm * 4 + 1 / 2\<rfloor>)
           in seedMany W (fst lane) profile seedCount s))"

definition seedTraffic :: "entropy \<Rightarrow> SimulationService \<Rightarrow> SimulationService" where
  "seedTraffic W s = foldl (seedLane W) s activeScene"

definition resetTraffic :: "entropy \<Rightarrow> SimulationService \<Rightarrow> SimulationService" where
  "resetTraffic W s = seedTraffic W (s\<lparr>sv_vehicles := []\<rparr>)"

text \<open>The service as its constructor leaves it, at time \<open>now\<close>.\<close>

definition newSimulationService :: "entropy \<Rightarrow> real \<Rightarrow> SimulationService" where
  "newSimulationService W now = seedTraffic W (unseededService now)"

section \<open>RL environment\<close>

record EnvironmentVehicle =
  ev_id :: string
  ev_laneIndex :: real
  ev_positionZ :: real
  ev_speedMps :: real
  ev_lengthMeters :: real
  ev_widthMeters :: real
  ev_type :: VehicleKind

record EgoState =
  ego_laneIndex :: real
  ego_laneOffset :: real
  ego_speedMps :: real
  ego_positionZ :: real
  ego_headingRad :: real
  ego_gear :: real

text \<open>
  The environment's mission. The target lane is a number or \<^verbatim>\<open>null\<close>; the return lane
  and the direction are optional and nullable.
\<close>

record DrivingMission =
  dm_targetLaneIndex :: "real option"
  dm_cruiseTargetSpeedMps :: real
  dm_cruiseGapMeters :: real
  dm_mode :: DrivingMissionMode
  dm_returnLaneIndex :: "real field"
  dm_laneChangeDirection :: "LaneChangeDirection field"

text \<open>A partial mission: an absent field keeps the current value.\<close>

record MissionGoal =
  g_targetLaneIndex :: "real field"
  g_cruiseTargetSpeedMps :: "real option"
  g_cruiseGapMeters :: "real option"
  g_mode :: "DrivingMissionMode option"
  g_returnLaneIndex :: "real field option"
  g_laneChangeDirection :: "LaneChangeDirection field option"

record DrivingEnvConfig =
  timeStepSeconds :: real
  maxEpisodeSeconds :: real
  maxSpeedMps :: real
  maxAccelMps2 :: real
  maxBrakeMps2 :: real
  coastDragMps2 :: real
  laneCount :: real

definition DEFAULT_CONFIG :: DrivingEnvConfig where
  "DEFAULT_CONFIG = \<lparr> timeStepSeconds = 0.2, maxEpisodeSeconds = 180,
     maxSpeedMps = mphToMps 90, maxAccelMps2 = 3.6, maxBrakeMps2 = 6.5,
     coastDragMps2 = 1.2, laneCount = 5 \<rparr>"

definition FALLBACK_LANE_PROFILE :: TrafficLaneProfile where
  "FALLBACK_LANE_PROFILE = \<lparr> lp_laneIndex = 0, lp_type = general, lp_targetSpeedMph = 60,
     lp_minSpeedMph = 45, lp_maxSpeedMph = 70, lp_preferredSpacingMeters = 32,
     lp_spawnRatePerMinute = 18 \<rparr>"

record DrivingEnvironment =
  en_config :: DrivingEnvConfig
  en_laneProfiles :: "TrafficLaneProfile list"
  en_traffic :: "EnvironmentVehicle list"
  en_ego :: EgoState
  en_elapsedSeconds :: real
  en_episodeId :: string
  en_mission :: DrivingMission

record DrivingObservation =
  ob_laneIndex :: real
  ob_laneOffsetMeters :: real
  ob_speedMps :: real
  ob_targetSpeedMps :: real
  ob_cruiseTargetSpeedMps :: real
  ob_cruiseGapMeters :: real
  ob_gapAheadMeters :: real
  ob_gapBehindMeters :: real
  ob_relativeSpeedAheadMps :: real
  ob_relativeSpeedBehindMps :: real
  ob_targetLaneIndex :: "real option"
  ob_missionMode :: DrivingMissionMode
  ob_returnLaneIndex :: "real field"

record DrivingAction =
  ac_lateral :: real
  ac_acceleration :: real
  ac_brake :: real
  ac_requestedLaneIndex :: "real option"

record RewardBreakdown =
  rw_progress :: real
  rw_laneKeeping :: real
  rw_comfort :: real
  rw_ruleCompliance :: real
  rw_cruiseTracking :: real
  rw_gapKeeping :: real
  rw_collisionPenalty :: real
  rw_total :: real

text \<open>
  The result of a step. The snapshot the source attaches to \<^verbatim>\<open>info\<close> is a projection of
  the environment after the step and is not carried here.
\<close>

record DrivingStepResult =
  sr_observation :: DrivingObservation
  sr_reward :: RewardBreakdown
  sr_done :: bool
  sr_collisions :: nat
  sr_laneChanges :: nat
  sr_elapsedSeconds :: real

definition snapshotMissionToDrivingMission :: "DrivingMissionSnapshot \<Rightarrow> DrivingMission" where
  "snapshotMissionToDrivingMission snapshot =
     \<lparr> dm_targetLaneIndex = ms_targetLaneIndex snapshot,
       dm_cruiseTargetSpeedMps = mphToMps (ms_cruiseTargetSpeedMph snapshot),
       dm_cruiseGapMeters = ms_cruiseGapMeters snapshot,
       dm_mode = ms_mode snapshot,
       dm_returnLaneIndex = (case ms_returnLaneIndex snapshot of None \<Rightarrow> Null | Some r \<Rightarrow> Val r),
       dm_laneChangeDirection =
         (case ms_laneChangeDirection snapshot of None \<Rightarrow> Null | Some d \<Rightarrow> Val d) \<rparr>"

definition loadMissionFromService :: "SimulationService \<Rightarrow> DrivingMission" where
  "loadMissionFromService svc = snapshotMissionToDrivingMission (getMission svc)"

definition fullGoal :: "DrivingMission \<Rightarrow> MissionGoal" where
  "fullGoal m =
     \<lparr> g_targetLaneIndex = (case dm_targetLaneIndex m of None \<Rightarrow> Null | Some t \<Rightarrow> Val t),
       g_cruiseTargetSpeedMps = Some (dm_cruiseTargetSpeedMps m),
       g_cruiseGapMeters = Some (dm_cruiseGapMeters m),
       g_mode = Some (dm_mode m),
       g_returnLaneIndex = Some (dm_returnLaneIndex m),
       g_laneChangeDirection = Some (dm_laneChangeDirection m) \<rparr>"

definition setMission :: "DrivingEnvironment \<Rightarrow> MissionGoal \<Rightarrow> DrivingEnvironment" where
  "setMission env goal =
     (let m = en_mission env
      in env\<lparr>en_mission :=
           \<lparr> dm_targetLaneIndex =
               (case g_targetLaneIndex goal of
                  Absent \<Rightarrow> dm_targetLaneIndex m | Null \<Rightarrow> None | Val t \<Rightarrow> Some t),
             dm_cruiseTargetSpeedMps = orElse (g_cruiseTargetSpeedMps goal) (dm_cruiseTargetSpeedMps m),
             dm_cruiseGapMeters = orElse (g_cruiseGapMeters goal) (dm_cruiseGapMeters m),
             dm_mode = orElse (g_mode goal) (dm_mode m),
             dm_returnLaneIndex = orElse (g_returnLaneIndex goal) (dm_returnLaneIndex m),
             dm_laneChangeDirection =
               orElse (g_laneChangeDirection goal) (dm_laneChangeDirection m) \<rparr>\<rparr>)"

definition buildObservation :: "DrivingEnvironment \<Rightarrow> DrivingObservation" where
  "buildObservation env =
     (let ego = en_ego env;
          laneVehicles = sort_key ev_positionZ
             (filter (\<lambda>vehicle. ev_laneIndex vehicle = ego_laneIndex ego) (en_traffic env));
          ahead = find (\<lambda>vehicle. ev_positionZ vehicle > ego_positionZ ego) laneVehicles;
          behind = find (\<lambda>vehicle. ev_positionZ vehicle < ego_positionZ ego) (rev laneVehicles);
          laneProfile = (case at_index (en_laneProfiles env) (ego_laneIndex ego) of
                           Some p \<Rightarrow> p
                         | None \<Rightarrow> (case en_laneProfiles env of
                                      p # ps \<Rightarrow> p
                                    | [] \<Rightarrow> FALLBACK_LANE_PROFILE));
          gapAhead = (case ahead of
                        Some a \<Rightarrow> ev_positionZ a - ego_positionZ ego - ev_lengthMeters a * 0.5
                      | None \<Rightarrow> 120);
          gapBehind = (case behind of
                         Some b \<Rightarrow> ego_positionZ ego - ev_positionZ b - ev_lengthMeters b * 0.5
                       | None \<Rightarrow> 120)
      in \<lparr> ob_laneIndex = ego_laneIndex ego,
           ob_laneOffsetMeters = ego_laneOffset ego,
           ob_speedMps = ego_speedMps ego,
           ob_targetSpeedMps = mphToMps (lp_targetSpeedMph laneProfile),
           ob_cruiseTargetSpeedMps = dm_cruiseTargetSpeedMps (en_mission env),
           ob_cruiseGapMeters = dm_cruiseGapMeters (en_mission env),
           ob_gapAheadMeters = gapAhead,
           ob_gapBehindMeters = gapBehind,
           ob_relativeSpeedAheadMps =
             (case ahead of Some a \<Rightarrow> ev_speedMps a - ego_speedMps ego | None \<Rightarrow> 0),
           ob_relativeSpeedBehindMps =
             (case behind of Some b \<Rightarrow> ev_speedMps b - ego_speedMps ego | None \<Rightarrow> 0),
           ob_targetLaneIndex = dm_targetLaneIndex (en_mission env),
           ob_missionMode = dm_mode (en_mission env),
           ob_returnLaneIndex = dm_returnLaneIndex (en_mission env) \<rparr>)"

text \<open>
  \<^verbatim>\<open>reset\<close>: traffic, ego and clock are reseeded from the live service's snapshot, the
  service's mission is loaded, then the goal is applied. \<open>uuid\<close> is the fresh episode id.
\<close>

definition reset ::
  "DrivingEnvironment \<Rightarrow> SimulationService \<Rightarrow> real \<Rightarrow> string \<Rightarrow> MissionGoal option \<Rightarrow>
   DrivingObservation \<times> DrivingEnvironment" where
  "reset env svc now uuid goal =
     (let snapshot = getSnapshot svc now;
          e1 = env\<lparr> en_episodeId := uuid,
                    en_traffic := map (\<lambda>vehicle.
                       \<lparr> ev_id = vs_id vehicle, ev_laneIndex = vs_laneIndex vehicle,
                         ev_positionZ = snd (snd (vs_position vehicle)),
                         ev_speedMps = vs_speedMps vehicle,
                         ev_lengthMeters = vs_lengthMeters vehicle,
                         ev_widthMeters = vs_widthMeters vehicle,
                         ev_type = vs_type vehicle \<rparr>) (sn_vehicles snapshot),
                    en_ego := \<lparr> ego_laneIndex = pl_laneIndex (sn_player snapshot),
                                ego_laneOffset = 0,
                                ego_speedMps = pl_speedMps (sn_player snapshot),
                                ego_positionZ = snd (snd (pl_position (sn_player snapshot))),
                                ego_headingRad = 0, ego_gear = 3 \<rparr>,
                    en_elapsedSeconds := 0 \<rparr>;
          e2 = setMission e1 (fullGoal (loadMissionFromService svc));
          e3 = (case goal of
                  Some g \<Rightarrow> setMission e2 g
                | None \<Rightarrow>
                    if dm_targetLaneIndex (en_mission e2) = None
                    then e2\<lparr>en_mission := (en_mission e2)
                            \<lparr>dm_targetLaneIndex := Some (ego_laneIndex (en_ego e2))\<rparr>\<rparr>
                    else e2)
      in (buildObservation e3, e3))"

text \<open>
  The constructor: configuration merged by the caller, lane profiles copied from the
  service, then \<^verbatim>\<open>reset()\<close>. The ego and mission it sets before are overwritten by the
  reset, except that the reset starts from the mission loaded from the service.
\<close>

definition newDrivingEnvironment ::
  "DrivingEnvConfig \<Rightarrow> SimulationService \<Rightarrow> real \<Rightarrow> string \<Rightarrow> DrivingEnvironment" where
  "newDrivingEnvironment config svc now uuid =
     snd (reset \<lparr> en_config = config,
                  en_laneProfiles = sn_lanes (getSnapshot svc now),
                  en_traffic = [],
                  en_ego = \<lparr> ego_laneIndex =
                              min (real_of_int \<lfloor>laneCount config / 2\<rfloor>)
                                  (real (length (sn_lanes (getSnapshot svc now))) - 1),
                            ego_laneOffset = 0, ego_speedMps = mphToMps 55, ego_positionZ = 0,
                            ego_headingRad = 0, ego_gear = 3 \<rparr>,
                  en_elapsedSeconds = 0,
                  en_episodeId = uuid,
                  en_mission = loadMissionFromService svc \<rparr> svc now uuid None)"

definition updateTraffic :: "real \<Rightarrow> EnvironmentVehicle list \<Rightarrow> EnvironmentVehicle list" where
  "updateTraffic dt traffic =
     filter (\<lambda>vehicle. ev_positionZ vehicle < 1200)
       (map (\<lambda>vehicle. vehicle\<lparr>ev_positionZ := ev_positionZ vehicle + ev_speedMps vehicle * dt\<rparr>)
          traffic)"

definition collides :: "EgoState \<Rightarrow> EnvironmentVehicle \<Rightarrow> bool" where
  "collides ego vehicle =
     (if ev_laneIndex vehicle \<noteq> ego_laneIndex ego then False
      else if \<bar>ev_positionZ vehicle - ego_positionZ ego\<bar> > 2.3 + ev_lengthMeters vehicle * 0.5 + 3
           then False
      else \<bar>ego_laneOffset ego\<bar> < 0.9 + ev_widthMeters vehicle * 0.5)"

definition detectCollision :: "DrivingEnvironment \<Rightarrow> bool" where
  "detectCollision env = list_ex (collides (en_ego env)) (en_traffic env)"

definition computeReward ::
  "DrivingEnvironment \<Rightarrow> DrivingObservation \<Rightarrow> bool \<Rightarrow> real \<Rightarrow> real \<Rightarrow> RewardBreakdown" where
  "computeReward env observation collision netAccel laneDelta =
     (let progress = ob_speedMps observation * timeStepSeconds (en_config env);
          laneAlignment = (case dm_targetLaneIndex (en_mission env) of
                             None \<Rightarrow> 0
                           | Some targetLane \<Rightarrow> - \<bar>targetLane - ob_laneIndex observation\<bar> * 0.35);
          laneKeeping = - \<bar>ob_laneOffsetMeters observation\<bar> * 0.1 + laneAlignment;
          comfort = - \<bar>netAccel\<bar> * 0.05;
          ruleCompliance =
            (if ob_speedMps observation \<le> ob_targetSpeedMps observation * 1.1 then 0.2 else - 0.4);
          cruiseTarget = dm_cruiseTargetSpeedMps (en_mission env);
          cruiseTracking = - \<bar>ob_speedMps observation - cruiseTarget\<bar> * 0.04;
          gapTarget = dm_cruiseGapMeters (en_mission env);
          gapKeeping =
            (if gapTarget > 0 then
               (let gapError = gapTarget - ob_gapAheadMeters observation;
                    g = - \<bar>gapError\<bar> * 0.01
                in if ob_gapAheadMeters observation < gapTarget * 0.6 then g - 0.6 else g)
             else 0);
          collisionPenalty = (if collision then - 25 else 0);
          laneDisciplinePenalty = (if \<bar>laneDelta\<bar> > 0.5 then - 0.2 else 0);
          total = progress + laneKeeping + comfort + ruleCompliance + cruiseTracking +
                  gapKeeping + collisionPenalty + laneDisciplinePenalty
      in \<lparr> rw_progress = progress, rw_laneKeeping = laneKeeping, rw_comfort = comfort,
           rw_ruleCompliance = ruleCompliance, rw_cruiseTracking = cruiseTracking,
           rw_gapKeeping = gapKeeping,
           rw_collisionPenalty = collisionPenalty + laneDisciplinePenalty,
           rw_total = total \<rparr>)"

text \<open>The lane the step steers for: the action's, else the mission's, else the current one.\<close>

definition requestedLane :: "DrivingEnvironment \<Rightarrow> DrivingAction \<Rightarrow> real" where
  "requestedLane env action =
     (case ac_requestedLaneIndex action of
        Some r \<Rightarrow> r
      | None \<Rightarrow> (case dm_targetLaneIndex (en_mission env) of
                   Some t \<Rightarrow> t
                 | None \<Rightarrow> ego_laneIndex (en_ego env)))"

definition netAcceleration :: "DrivingEnvConfig \<Rightarrow> DrivingAction \<Rightarrow> real" where
  "netAcceleration cfg action =
     (let throttleAccel = ac_acceleration action * maxAccelMps2 cfg;
          brakeDecel = ac_brake action * maxBrakeMps2 cfg;
          coastDrag = coastDragMps2 cfg * (if ac_acceleration action < 0.05 then 1 else 0.4)
      in throttleAccel - brakeDecel - coastDrag)"

text \<open>The longitudinal and the lateral update of the ego inside \<^verbatim>\<open>step\<close>.\<close>

definition moveEgo :: "DrivingEnvironment \<Rightarrow> DrivingAction \<Rightarrow> EgoState" where
  "moveEgo env action =
     (let cfg = en_config env;
          dt = timeStepSeconds cfg;
          ego = en_ego env;
          speed = max 0 (min (maxSpeedMps cfg) (ego_speedMps ego + netAcceleration cfg action * dt));
          e1 = ego\<lparr>ego_speedMps := speed, ego_positionZ := ego_positionZ ego + speed * dt\<rparr>;
          laneDelta = requestedLane env action - ego_laneIndex ego
      in if \<bar>laneDelta\<bar> > 0.01 then
           (let direction = sgn laneDelta;
                offset = ego_laneOffset e1 + direction * dt * (LANE_WIDTH_METERS / 1.2)
            in if \<bar>offset\<bar> \<ge> LANE_WIDTH_METERS * 0.5
               then e1\<lparr>ego_laneIndex :=
                         max 0 (min (real (length (en_laneProfiles env)) - 1)
                                    (ego_laneIndex ego + direction)),
                       ego_laneOffset := 0\<rparr>
               else e1\<lparr>ego_laneOffset := offset\<rparr>)
         else e1\<lparr>ego_laneOffset := ego_laneOffset e1 * 0.8\<rparr>)"

definition step :: "DrivingEnvironment \<Rightarrow> DrivingAction \<Rightarrow> DrivingStepResult \<times> DrivingEnvironment" where
  "step env action =
     (let dt = timeStepSeconds (en_config env);
          netAccel = netAcceleration (en_config env) action;
          previousLaneIndex = ego_laneIndex (en_ego env);
          laneDelta = requestedLane env action - ego_laneIndex (en_ego env);
          e1 = env\<lparr>en_ego := moveEgo env action\<rparr>;
          e2 = e1\<lparr>en_traffic := updateTraffic dt (en_traffic e1)\<rparr>;
          collision = detectCollision e2;
          e3 = e2\<lparr>en_elapsedSeconds := en_elapsedSeconds e2 + dt\<rparr>;
          observation = buildObservation e3;
          reward = computeReward e3 observation collision netAccel laneDelta;
          done = (collision \<or> en_elapsedSeconds e3 \<ge> maxEpisodeSeconds (en_config e3));
          laneChanged = (if ego_laneIndex (en_ego e3) \<noteq> previousLaneIndex then 1 else 0)
      in (\<lparr> sr_observation = observation, sr_reward = reward, sr_done = done,
            sr_collisions = (if collision then 1 else 0), sr_laneChanges = laneChanged,
            sr_elapsedSeconds = en_elapsedSeconds e3 \<rparr>, e3))"

section \<open>Mission patches: what counts as an invalid field\<close>

text \<open>
  The invalid fields of a patch, in the words of the mission contract: a lane index that
  is present and not null but not an integer or outside \<open>[0, laneCount)\<close>; a cruise speed
  that is not finite; a gap that is not finite or not positive; a mode outside the four
  modes; a direction that is neither null nor left/right.
\<close>

fun laneIndexInvalid :: "nat \<Rightarrow> jsnum field \<Rightarrow> bool" where
  "laneIndexInvalid n (Val (Num r)) = (r \<notin> \<int> \<or> r < 0 \<or> real n \<le> r)"
| "laneIndexInvalid n (Val _) = True"
| "laneIndexInvalid n _ = False"

fun speedInvalid :: "jsnum option \<Rightarrow> bool" where
  "speedInvalid (Some (Num r)) = False"
| "speedInvalid (Some _) = True"
| "speedInvalid None = False"

fun gapInvalid :: "jsnum option \<Rightarrow> bool" where
  "gapInvalid (Some (Num r)) = (r \<le> 0)"
| "gapInvalid (Some _) = True"
| "gapInvalid None = False"

fun modeInvalid :: "string option \<Rightarrow> bool" where
  "modeInvalid (Some s) = (s \<notin> {''hold'', ''cruise'', ''lane_change'', ''overtake''})"
| "modeInvalid None = False"

fun directionInvalid :: "string field \<Rightarrow> bool" where
  "directionInvalid (Val s) = (s \<notin> {''left'', ''right''})"
| "directionInvalid _ = False"

definition invalidPatch :: "nat \<Rightarrow> DrivingMissionUpdate \<Rightarrow> bool" where
  "invalidPatch n u =
     (laneIndexInvalid n (upd_targetLaneIndex u) \<or> speedInvalid (upd_cruiseTargetSpeedMph u) \<or>
      gapInvalid (upd_cruiseGapMeters u) \<or> laneIndexInvalid n (upd_returnLaneIndex u) \<or>
      modeInvalid (upd_mode u) \<or> directionInvalid (upd_laneChangeDirection u))"

section \<open>Voice controller: building the mission patch\<close>

















section \<open>Example states of the mission state machine\<close>





section \<open>Example states of the RL environment\<close>

text \<open>
  An entropy source whose random numbers are all 0 (so every pick is the first entry: a
  sedan, steady) and one whose random numbers are all 0.8 (the fourth entry: a motorcycle).
\<close>

definition zeroEntropy :: entropy where
  "zeroEntropy = \<lparr> randoms = (\<lambda>k. 0), uuids = (\<lambda>k. ''vehicle'') \<rparr>"

definition highEntropy :: entropy where
  "highEntropy = \<lparr> randoms = (\<lambda>k. 0.8), uuids = (\<lambda>k. ''vehicle'') \<rparr>"

definition coast :: DrivingAction where
  "coast = \<lparr> ac_lateral = 0, ac_acceleration = 0, ac_brake = 0, ac_requestedLaneIndex = None \<rparr>"

text \<open>The live service after a caller has set the player's lane index to 7, and an
  environment constructed on it.\<close>

definition svc7 :: SimulationService where
  "svc7 = updatePlayerState (unseededService 0) (emptyPlayerUpdate\<lparr>pu_laneIndex := Some 7\<rparr>)"

definition env7 :: DrivingEnvironment where
  "env7 = newDrivingEnvironment DEFAULT_CONFIG svc7 1 ''episode-1''"

text \<open>An environment constructed on the service as it starts, without traffic.\<close>

definition env0 :: DrivingEnvironment where
  "env0 = newDrivingEnvironment DEFAULT_CONFIG (unseededService 0) 1 ''episode-1''"

text \<open>
  The live service with the player at 1300 m in lane 0 and a vehicle spawned in lane 0 at
  1300 m with 60 mph, and an environment constructed on it: the vehicle sits exactly at
  the ego's position.
\<close>

definition spawnOrSame :: "entropy \<Rightarrow> SimulationService \<Rightarrow> SpawnInput \<Rightarrow> SimulationService" where
  "spawnOrSame W s input = (case spawnVehicle W s input of Inl e \<Rightarrow> s | Inr (vid, s') \<Rightarrow> s')"

definition svcFar :: SimulationService where
  "svcFar = spawnOrSame zeroEntropy
     (updatePlayerState (unseededService 0) (emptyPlayerUpdate\<lparr>pu_positionZ := Some 1300\<rparr>))
     \<lparr> si_laneIndex = 0, si_speedMph = Some 60, si_positionZ = Some 1300, si_type = None,
       si_behavior = None \<rparr>"

definition envFar :: DrivingEnvironment where
  "envFar = newDrivingEnvironment DEFAULT_CONFIG svcFar 1 ''episode-1''"

text \<open>
  The live service with the player standing still at 0 m in lane 0 and a motorcycle
  spawned in lane 0 at 0 m with 74 mph, and an environment constructed on it.
\<close>

definition svcFast :: SimulationService where
  "svcFast = spawnOrSame highEntropy
     (updatePlayerState (unseededService 0) (emptyPlayerUpdate\<lparr>pu_speedMps := Some 0\<rparr>))
     \<lparr> si_laneIndex = 0, si_speedMph = Some 74, si_positionZ = Some 0, si_type = None,
       si_behavior = None \<rparr>"

definition envFast :: DrivingEnvironment where
  "envFast = newDrivingEnvironment DEFAULT_CONFIG svcFast 1 ''episode-1''"

text \<open>
  The live service with the player standing still at 0 m in lane 0 and a sedan spawned
  in lane 0 at 0 m with 60 mph, and an environment constructed on it.
\<close>

definition svcNear :: SimulationService where
  "svcNear = spawnOrSame zeroEntropy
     (updatePlayerState (unseededService 0) (emptyPlayerUpdate\<lparr>pu_speedMps := Some 0\<rparr>))
     \<lparr> si_laneIndex = 0, si_speedMph = Some 60, si_positionZ = Some 0, si_type = None,
       si_behavior = None \<rparr>"

definition envNear :: DrivingEnvironment where
  "envNear = newDrivingEnvironment DEFAULT_CONFIG svcNear 1 ''episode-1''"

text \<open>
  The live service with the player standing still at 0 m in lane 0 and a standing
  motorcycle spawned at 0 m in lane 0; an environment with a time step of 0.55 s
  constructed on it, and that environment after one step towards lane 1, which leaves
  the ego 1.65 m off the lane centre with the motorcycle still at its position.
\<close>

definition svcStill :: SimulationService where
  "svcStill = spawnOrSame highEntropy
     (updatePlayerState (unseededService 0) (emptyPlayerUpdate\<lparr>pu_speedMps := Some 0\<rparr>))
     \<lparr> si_laneIndex = 0, si_speedMph = Some 0, si_positionZ = Some 0, si_type = None,
       si_behavior = None \<rparr>"

definition envDrift :: DrivingEnvironment where
  "envDrift = snd (step (newDrivingEnvironment (DEFAULT_CONFIG\<lparr>timeStepSeconds := 0.55\<rparr>)
                          svcStill 1 ''episode-1'')
                       (coast\<lparr>ac_requestedLaneIndex := Some 1\<rparr>))"

section \<open>The reward in the words of the specification\<close>

text \<open>
  The reward terms as the specification words them: progress is speed times the time
  step; lane keeping is -0.1 per metre of offset, plus -0.35 per lane between target and
  current lane when a target lane is set; comfort is -0.05 per unit of net acceleration;
  rule compliance is +0.2 when the speed is at most 1.1 times the lane's target speed and
  -0.4 otherwise; cruise tracking is -0.04 per unit of speed error; gap keeping is -0.01
  per metre of gap error, with a further -0.6 when the forward gap is below 60% of the
  gap target; the collision penalty is -25 on a collision; the lane-discipline penalty
  is -0.2 when the lane delta exceeds half a lane; the total is the sum of the terms.
\<close>

record SpecReward =
  sp_progress :: real
  sp_laneKeeping :: real
  sp_comfort :: real
  sp_ruleCompliance :: real
  sp_cruiseTracking :: real
  sp_gapKeeping :: real
  sp_collisionPenalty :: real
  sp_laneDisciplinePenalty :: real
  sp_total :: real

definition specReward ::
  "real \<Rightarrow> DrivingMission \<Rightarrow> DrivingObservation \<Rightarrow> bool \<Rightarrow> real \<Rightarrow> real \<Rightarrow> SpecReward" where
  "specReward dt mission observation collision netAccel laneDelta =
     (let progress = ob_speedMps observation * dt;
          laneKeeping = - \<bar>ob_laneOffsetMeters observation\<bar> * 0.1 +
             (case dm_targetLaneIndex mission of
                None \<Rightarrow> 0
              | Some targetLane \<Rightarrow> - 0.35 * \<bar>targetLane - ob_laneIndex observation\<bar>);
          comfort = - \<bar>netAccel\<bar> * 0.05;
          ruleCompliance =
            (if ob_speedMps observation \<le> 1.1 * ob_targetSpeedMps observation then 0.2 else - 0.4);
          cruiseTracking = - \<bar>ob_speedMps observation - dm_cruiseTargetSpeedMps mission\<bar> * 0.04;
          gapError = dm_cruiseGapMeters mission - ob_gapAheadMeters observation;
          gapKeeping = - \<bar>gapError\<bar> * 0.01 +
             (if ob_gapAheadMeters observation < 0.6 * dm_cruiseGapMeters mission then - 0.6 else 0);
          collisionPenalty = (if collision then - 25 else 0);
          laneDisciplinePenalty = (if \<bar>laneDelta\<bar> > 0.5 then - 0.2 else 0)
      in \<lparr> sp_progress = progress, sp_laneKeeping = laneKeeping, sp_comfort = comfort,
           sp_ruleCompliance = ruleCompliance, sp_cruiseTracking = cruiseTracking,
           sp_gapKeeping = gapKeeping, sp_collisionPenalty = collisionPenalty,
           sp_laneDisciplinePenalty = laneDisciplinePenalty,
           sp_total = progress + laneKeeping + comfort + ruleCompliance + cruiseTracking +
                      gapKeeping + collisionPenalty + laneDisciplinePenalty \<rparr>)"

text \<open>The specification's terms for the step that \<^verbatim>\<open>step\<close> takes from \<open>env\<close> with \<open>action\<close>.\<close>

definition specRewardOfStep :: "DrivingEnvironment \<Rightarrow> DrivingAction \<Rightarrow> SpecReward" where
  "specRewardOfStep env action =
     specReward (timeStepSeconds (en_config env)) (en_mission env)
       (sr_observation (fst (step env action)))
       (detectCollision (snd (step env action)))
       (netAcceleration (en_config env) action)
       (requestedLane env action - ego_laneIndex (en_ego env))"

text \<open>An environment constructed on the starting service and reset with a gap target of 0.\<close>

definition envNoGap :: DrivingEnvironment where
  "envNoGap = snd (reset env0 (unseededService 0) 2 ''episode-2''
     (Some \<lparr> g_targetLaneIndex = Absent, g_cruiseTargetSpeedMps = None,
             g_cruiseGapMeters = Some 0, g_mode = None, g_returnLaneIndex = None,
             g_laneChangeDirection = None \<rparr>))"

section \<open>Properties of the mission state machine\<close>

lemma isInt_iff: "isInt r \<longleftrightarrow> r \<in> \<int>"
  unfolding isInt_def by (metis Ints_of_int of_int_floor)

lemma bind_err_Inr: "bind_err r f = Inr y \<longleftrightarrow> (\<exists>x. r = Inr x \<and> f x = Inr y)"
  by (cases r) (auto simp: bind_err_def)

lemma applyTargetLane_Inr:
  "(\<exists>y. applyTargetLane n u m = Inr y) \<longleftrightarrow> \<not> laneIndexInvalid n (upd_targetLaneIndex u)"
  unfolding applyTargetLane_def
  apply (cases "upd_targetLaneIndex u")
    apply simp
   apply simp
  subgoal for v by (cases v) (auto simp: isInt_iff)
  done

lemma applyReturnLane_Inr:
  "(\<exists>y. applyReturnLane n u m = Inr y) \<longleftrightarrow> \<not> laneIndexInvalid n (upd_returnLaneIndex u)"
  unfolding applyReturnLane_def
  apply (cases "upd_returnLaneIndex u")
    apply simp
   apply simp
  subgoal for v by (cases v) (auto simp: isInt_iff)
  done

lemma applyCruiseSpeed_Inr:
  "(\<exists>y. applyCruiseSpeed u m = Inr y) \<longleftrightarrow> \<not> speedInvalid (upd_cruiseTargetSpeedMph u)"
  unfolding applyCruiseSpeed_def
  apply (cases "upd_cruiseTargetSpeedMph u")
   apply simp
  subgoal for v by (cases v) auto
  done

lemma applyCruiseGap_Inr:
  "(\<exists>y. applyCruiseGap u m = Inr y) \<longleftrightarrow> \<not> gapInvalid (upd_cruiseGapMeters u)"
  unfolding applyCruiseGap_def
  apply (cases "upd_cruiseGapMeters u")
   apply simp
  subgoal for v by (cases v) auto
  done

lemma applyMode_Inr:
  "(\<exists>y. applyMode u m = Inr y) \<longleftrightarrow> \<not> modeInvalid (upd_mode u)"
  unfolding applyMode_def
  by (cases "upd_mode u") (auto simp: parseMode_def split: option.splits if_splits)

lemma applyDirection_Inr:
  "(\<exists>y. applyDirection u m = Inr y) \<longleftrightarrow> \<not> directionInvalid (upd_laneChangeDirection u)"
  unfolding applyDirection_def
  by (cases "upd_laneChangeDirection u") (auto simp: parseDirection_def split: option.splits if_splits)

lemma missionNext_Inr_iff:
  "(\<exists>y. missionNext n m now u = Inr y) \<longleftrightarrow> \<not> invalidPatch n u"
proof
  assume "\<exists>y. missionNext n m now u = Inr y"
  then obtain y where y: "missionNext n m now u = Inr y" ..
  then obtain n1 n2 n3 n4 n5 n6 where
    "applyTargetLane n u (m\<lparr>ms_updatedAt := now\<rparr>) = Inr n1"
    "applyCruiseSpeed u n1 = Inr n2" "applyCruiseGap u n2 = Inr n3"
    "applyReturnLane n u n3 = Inr n4" "applyMode u n4 = Inr n5" "applyDirection u n5 = Inr n6"
    unfolding missionNext_def bind_err_Inr by blast
  then show "\<not> invalidPatch n u"
    unfolding invalidPatch_def
    using applyTargetLane_Inr applyCruiseSpeed_Inr applyCruiseGap_Inr applyReturnLane_Inr
      applyMode_Inr applyDirection_Inr by blast
next
  assume v: "\<not> invalidPatch n u"
  obtain n1 where 1: "applyTargetLane n u (m\<lparr>ms_updatedAt := now\<rparr>) = Inr n1"
    using v applyTargetLane_Inr unfolding invalidPatch_def by blast
  obtain n2 where 2: "applyCruiseSpeed u n1 = Inr n2"
    using v applyCruiseSpeed_Inr unfolding invalidPatch_def by blast
  obtain n3 where 3: "applyCruiseGap u n2 = Inr n3"
    using v applyCruiseGap_Inr unfolding invalidPatch_def by blast
  obtain n4 where 4: "applyReturnLane n u n3 = Inr n4"
    using v applyReturnLane_Inr unfolding invalidPatch_def by blast
  obtain n5 where 5: "applyMode u n4 = Inr n5"
    using v applyMode_Inr unfolding invalidPatch_def by blast
  obtain n6 where 6: "applyDirection u n5 = Inr n6"
    using v applyDirection_Inr unfolding invalidPatch_def by blast
  show "\<exists>y. missionNext n m now u = Inr y"
    unfolding missionNext_def by (simp add: 1 2 3 4 5 6 bind_err_def)
qed

text \<open>
  C4. A patch with at least one invalid field (a target or return lane index that is not
  an integer or out of range, a non-finite cruise speed, a non-finite or non-positive gap,
  an invalid mode or lane-change direction) makes \<^verbatim>\<open>updateMission\<close> throw, and the service,
  so also its stored mission, is exactly what it was before the call.
\<close>

theorem updateMission_rejects_invalid_patch:
  assumes "invalidPatch (getLaneCount s) update"
  shows "(\<exists>e. fst (updateMission s now update) = Inl e) \<and>
         snd (updateMission s now update) = s \<and>
         getMission (snd (updateMission s now update)) = getMission s"
proof -
  have "\<not> (\<exists>y. missionNext (length (sv_laneProfiles s)) (sv_mission s) now update = Inr y)"
    using assms missionNext_Inr_iff unfolding getLaneCount_def by blast
  then obtain e where "missionNext (length (sv_laneProfiles s)) (sv_mission s) now update = Inl e"
    by (cases "missionNext (length (sv_laneProfiles s)) (sv_mission s) now update") auto
  then show ?thesis by (simp add: updateMission_def)
qed

lemmas mission_defs = updateMission_def missionNext_def unseededService_def emptyUpdate_def
     applyTargetLane_def applyCruiseSpeed_def applyCruiseGap_def applyReturnLane_def applyMode_def
     applyDirection_def applySourceNote_def bind_err_def initialMission_def getMission_def getLaneCount_def
     parseMode_def parseDirection_def

theorem updateMission_rejects_invalid_patch_witness:
  "invalidPatch (getLaneCount (unseededService 0)) (emptyUpdate\<lparr>upd_targetLaneIndex := Val (Num 7)\<rparr>) \<and>
   fst (updateMission (unseededService 0) 5 (emptyUpdate\<lparr>upd_targetLaneIndex := Val (Num 7)\<rparr>))
     = Inl (InvalidLaneIndex (Num 7)) \<and>
   getMission (snd (updateMission (unseededService 0) 5 (emptyUpdate\<lparr>upd_targetLaneIndex := Val (Num 7)\<rparr>)))
     = initialMission 0"
proof -
  have h: "invalidPatch (getLaneCount (unseededService 0)) (emptyUpdate\<lparr>upd_targetLaneIndex := Val (Num 7)\<rparr>)"
    by (simp add: invalidPatch_def getLaneCount_def unseededService_def emptyUpdate_def
        buildLaneProfiles_def activeScene_def coastal101Scene_def)
  from updateMission_rejects_invalid_patch [OF h, of 5] h show ?thesis
    by (simp add: mission_defs isInt_def buildLaneProfiles_def activeScene_def coastal101Scene_def)
qed


lemma applyTargetLane_keeps:
  "applyTargetLane n u m = Inr m' \<Longrightarrow>
     ms_cruiseTargetSpeedMph m' = ms_cruiseTargetSpeedMph m \<and>
     ms_cruiseGapMeters m' = ms_cruiseGapMeters m \<and> ms_mode m' = ms_mode m"
  by (auto simp: applyTargetLane_def split: field.splits if_splits)

lemma applyReturnLane_keeps:
  "applyReturnLane n u m = Inr m' \<Longrightarrow>
     ms_cruiseTargetSpeedMph m' = ms_cruiseTargetSpeedMph m \<and>
     ms_cruiseGapMeters m' = ms_cruiseGapMeters m \<and> ms_mode m' = ms_mode m"
  by (auto simp: applyReturnLane_def split: field.splits if_splits)

lemma applyDirection_keeps:
  "applyDirection u m = Inr m' \<Longrightarrow>
     ms_cruiseTargetSpeedMph m' = ms_cruiseTargetSpeedMph m \<and>
     ms_cruiseGapMeters m' = ms_cruiseGapMeters m \<and> ms_mode m' = ms_mode m"
  by (auto simp: applyDirection_def split: field.splits option.splits)

lemma applySourceNote_keeps:
  "ms_cruiseTargetSpeedMph (applySourceNote u m) = ms_cruiseTargetSpeedMph m \<and>
   ms_cruiseGapMeters (applySourceNote u m) = ms_cruiseGapMeters m \<and>
   ms_mode (applySourceNote u m) = ms_mode m"
  by (auto simp: applySourceNote_def Let_def split: option.splits)

lemma applyCruiseSpeed_sets:
  "applyCruiseSpeed u m = Inr m' \<Longrightarrow>
     ms_cruiseTargetSpeedMph m' =
       (case upd_cruiseTargetSpeedMph u of
          None \<Rightarrow> ms_cruiseTargetSpeedMph m
        | Some v \<Rightarrow> max 25 (min 95 (the_num v))) \<and>
     ms_cruiseGapMeters m' = ms_cruiseGapMeters m \<and> ms_mode m' = ms_mode m"
  by (auto simp: applyCruiseSpeed_def split: option.splits if_splits)

lemma applyCruiseGap_sets:
  "applyCruiseGap u m = Inr m' \<Longrightarrow>
     ms_cruiseGapMeters m' =
       (case upd_cruiseGapMeters u of
          None \<Rightarrow> ms_cruiseGapMeters m
        | Some v \<Rightarrow> max 8 (min 120 (the_num v))) \<and>
     ms_cruiseTargetSpeedMph m' = ms_cruiseTargetSpeedMph m \<and> ms_mode m' = ms_mode m"
  by (auto simp: applyCruiseGap_def split: option.splits if_splits)

lemma applyMode_sets:
  "applyMode u m = Inr m' \<Longrightarrow>
     ms_mode m' = (case upd_mode u of None \<Rightarrow> ms_mode m | Some s \<Rightarrow> the (parseMode s)) \<and>
     ms_cruiseTargetSpeedMph m' = ms_cruiseTargetSpeedMph m \<and>
     ms_cruiseGapMeters m' = ms_cruiseGapMeters m"
  by (auto simp: applyMode_def split: option.splits)

lemma missionNext_fields:
  assumes "missionNext n m now u = Inr nxt"
  shows "ms_cruiseTargetSpeedMph nxt =
           (case upd_cruiseTargetSpeedMph u of
              None \<Rightarrow> ms_cruiseTargetSpeedMph m
            | Some v \<Rightarrow> max 25 (min 95 (the_num v)))"
    and "ms_cruiseGapMeters nxt =
           (case upd_cruiseGapMeters u of
              None \<Rightarrow> ms_cruiseGapMeters m
            | Some v \<Rightarrow> max 8 (min 120 (the_num v)))"
    and "ms_mode nxt = (case upd_mode u of None \<Rightarrow> ms_mode m | Some s \<Rightarrow> the (parseMode s))"
proof -
  from assms obtain n1 n2 n3 n4 n5 n6 where
    1: "applyTargetLane n u (m\<lparr>ms_updatedAt := now\<rparr>) = Inr n1" and
    2: "applyCruiseSpeed u n1 = Inr n2" and 3: "applyCruiseGap u n2 = Inr n3" and
    4: "applyReturnLane n u n3 = Inr n4" and 5: "applyMode u n4 = Inr n5" and
    6: "applyDirection u n5 = Inr n6" and 7: "nxt = applySourceNote u n6"
    unfolding missionNext_def bind_err_Inr by auto
  note k1 = applyTargetLane_keeps [OF 1] and k2 = applyCruiseSpeed_sets [OF 2]
    and k3 = applyCruiseGap_sets [OF 3] and k4 = applyReturnLane_keeps [OF 4]
    and k5 = applyMode_sets [OF 5] and k6 = applyDirection_keeps [OF 6]
    and k7 = applySourceNote_keeps [of u n6]
  show "ms_cruiseTargetSpeedMph nxt =
           (case upd_cruiseTargetSpeedMph u of
              None \<Rightarrow> ms_cruiseTargetSpeedMph m
            | Some v \<Rightarrow> max 25 (min 95 (the_num v)))"
    using k1 k2 k3 k4 k5 k6 k7 7 by (simp split: option.splits)
  show "ms_cruiseGapMeters nxt =
           (case upd_cruiseGapMeters u of
              None \<Rightarrow> ms_cruiseGapMeters m
            | Some v \<Rightarrow> max 8 (min 120 (the_num v)))"
    using k1 k2 k3 k4 k5 k6 k7 7 by (simp split: option.splits)
  show "ms_mode nxt = (case upd_mode u of None \<Rightarrow> ms_mode m | Some s \<Rightarrow> the (parseMode s))"
    using k1 k2 k3 k4 k5 k6 k7 7 by (simp split: option.splits)
qed

text \<open>
  C1 (as stated, refuted). A finite cruise speed of 200 and a finite gap of 500 are not
  rejected: the patch is accepted and the stored mission changes to the clamped values
  95 and 120.
\<close>

theorem updateMission_out_of_range_accepted:
  "fst (updateMission (unseededService 0) 5 (emptyUpdate\<lparr>upd_cruiseTargetSpeedMph := Some (Num 200)\<rparr>))
     = Inr ((initialMission 0)\<lparr>ms_cruiseTargetSpeedMph := 95, ms_updatedAt := 5\<rparr>) \<and>
   getMission (snd (updateMission (unseededService 0) 5
      (emptyUpdate\<lparr>upd_cruiseTargetSpeedMph := Some (Num 200)\<rparr>))) \<noteq> getMission (unseededService 0) \<and>
   fst (updateMission (unseededService 0) 5 (emptyUpdate\<lparr>upd_cruiseGapMeters := Some (Num 500)\<rparr>))
     = Inr ((initialMission 0)\<lparr>ms_cruiseGapMeters := 120, ms_updatedAt := 5\<rparr>) \<and>
   getMission (snd (updateMission (unseededService 0) 5
      (emptyUpdate\<lparr>upd_cruiseGapMeters := Some (Num 500)\<rparr>))) \<noteq> getMission (unseededService 0)"
  by (simp add: mission_defs)

text \<open>
  C1 (amended). A patch without an invalid field is accepted and stored; a finite cruise
  speed is stored clamped into \<open>[25, 95]\<close> and a finite positive gap clamped into
  \<open>[8, 120]\<close>, whether or not it was in range.
\<close>

theorem updateMission_clamps_speed_and_gap:
  assumes "\<not> invalidPatch (getLaneCount s) update"
  shows "\<exists>next. updateMission s now update = (Inr next, s\<lparr>sv_mission := next\<rparr>) \<and>
           (\<forall>v. upd_cruiseTargetSpeedMph update = Some (Num v) \<longrightarrow>
                  ms_cruiseTargetSpeedMph next = max 25 (min 95 v)) \<and>
           (\<forall>g. upd_cruiseGapMeters update = Some (Num g) \<longrightarrow>
                  ms_cruiseGapMeters next = max 8 (min 120 g))"
proof -
  obtain nxt where nx: "missionNext (length (sv_laneProfiles s)) (sv_mission s) now update = Inr nxt"
    using assms missionNext_Inr_iff unfolding getLaneCount_def by blast
  have "updateMission s now update = (Inr nxt, s\<lparr>sv_mission := nxt\<rparr>)"
    by (simp add: updateMission_def nx)
  moreover have "\<forall>v. upd_cruiseTargetSpeedMph update = Some (Num v) \<longrightarrow>
                  ms_cruiseTargetSpeedMph nxt = max 25 (min 95 v)"
    using missionNext_fields(1) [OF nx] by simp
  moreover have "\<forall>g. upd_cruiseGapMeters update = Some (Num g) \<longrightarrow>
                  ms_cruiseGapMeters nxt = max 8 (min 120 g)"
    using missionNext_fields(2) [OF nx] by simp
  ultimately show ?thesis by blast
qed

theorem updateMission_clamps_speed_and_gap_witness:
  "\<not> invalidPatch (getLaneCount (unseededService 0))
       (emptyUpdate\<lparr>upd_cruiseTargetSpeedMph := Some (Num 200), upd_cruiseGapMeters := Some (Num 3)\<rparr>) \<and>
   ms_cruiseTargetSpeedMph (getMission (snd (updateMission (unseededService 0) 5
       (emptyUpdate\<lparr>upd_cruiseTargetSpeedMph := Some (Num 200), upd_cruiseGapMeters := Some (Num 3)\<rparr>)))) = 95 \<and>
   ms_cruiseGapMeters (getMission (snd (updateMission (unseededService 0) 5
       (emptyUpdate\<lparr>upd_cruiseTargetSpeedMph := Some (Num 200), upd_cruiseGapMeters := Some (Num 3)\<rparr>)))) = 8"
proof -
  let ?u = "emptyUpdate\<lparr>upd_cruiseTargetSpeedMph := Some (Num 200), upd_cruiseGapMeters := Some (Num 3)\<rparr>"
  have h: "\<not> invalidPatch (getLaneCount (unseededService 0)) ?u"
    by (simp add: invalidPatch_def emptyUpdate_def)
  from updateMission_clamps_speed_and_gap [OF h, of 5]
  obtain nxt where "updateMission (unseededService 0) 5 ?u = (Inr nxt, (unseededService 0)\<lparr>sv_mission := nxt\<rparr>)"
    and "ms_cruiseTargetSpeedMph nxt = max 25 (min 95 200)"
    and "ms_cruiseGapMeters nxt = max 8 (min 120 3)"
    by (auto simp: emptyUpdate_def)
  with h show ?thesis by (simp add: getMission_def)
qed








lemma step_ego: "en_ego (snd (step env action)) = moveEgo env action"
  by (simp add: step_def Let_def)

lemma step_laneProfiles: "en_laneProfiles (snd (step env action)) = en_laneProfiles env"
  by (simp add: step_def Let_def)

lemma moveEgo_lane_cases:
  "ego_laneIndex (moveEgo env action) = ego_laneIndex (en_ego env) \<or>
   (\<bar>ego_laneOffset (en_ego env) +
       sgn (requestedLane env action - ego_laneIndex (en_ego env)) *
       timeStepSeconds (en_config env) * (LANE_WIDTH_METERS / 1.2)\<bar> \<ge> LANE_WIDTH_METERS * 0.5 \<and>
    ego_laneOffset (moveEgo env action) = 0 \<and>
    ego_laneIndex (moveEgo env action) =
      max 0 (min (real (length (en_laneProfiles env)) - 1)
        (ego_laneIndex (en_ego env) + sgn (requestedLane env action - ego_laneIndex (en_ego env)))))"
  by (simp add: moveEgo_def Let_def)

text \<open>
  C10 (as stated, refuted). The reset copies the player's lane index from the live
  service, which accepts any value; with the player in lane 7 of 5 lanes, the ego's lane
  index after a step is still 7.
\<close>

theorem step_keeps_out_of_range_lane:
  "length (en_laneProfiles env7) = 5 \<and> ego_laneIndex (en_ego (snd (step env7 coast))) = 7"
  by code_simp

text \<open>
  C10 (amended). For every action, a step either leaves the ego's lane index as it was,
  or commits a change: then the accumulated lateral offset has reached half a lane width,
  the new index is the old one moved by one in the requested direction and clamped to
  \<open>[0, laneCount - 1]\<close>, and the offset is reset to 0. So with at least one lane, a lane
  index inside \<open>[0, laneCount - 1]\<close> before the step is inside it after the step, and
  every committed index is inside it.
\<close>

theorem step_lane_index_clamped:
  assumes "en_laneProfiles env \<noteq> []"
  shows "(ego_laneIndex (en_ego (snd (step env action))) = ego_laneIndex (en_ego env) \<or>
          (\<bar>ego_laneOffset (en_ego env) +
              sgn (requestedLane env action - ego_laneIndex (en_ego env)) *
              timeStepSeconds (en_config env) * (LANE_WIDTH_METERS / 1.2)\<bar> \<ge> LANE_WIDTH_METERS * 0.5 \<and>
           ego_laneOffset (en_ego (snd (step env action))) = 0 \<and>
           ego_laneIndex (en_ego (snd (step env action))) =
             max 0 (min (real (length (en_laneProfiles env)) - 1)
               (ego_laneIndex (en_ego env) + sgn (requestedLane env action - ego_laneIndex (en_ego env)))) \<and>
           0 \<le> ego_laneIndex (en_ego (snd (step env action))) \<and>
           ego_laneIndex (en_ego (snd (step env action))) \<le> real (length (en_laneProfiles env)) - 1)) \<and>
         (0 \<le> ego_laneIndex (en_ego env) \<and>
          ego_laneIndex (en_ego env) \<le> real (length (en_laneProfiles env)) - 1 \<longrightarrow>
          0 \<le> ego_laneIndex (en_ego (snd (step env action))) \<and>
          ego_laneIndex (en_ego (snd (step env action))) \<le> real (length (en_laneProfiles env)) - 1)"
proof -
  have n: "0 \<le> real (length (en_laneProfiles env)) - 1"
    using assms by (cases "en_laneProfiles env") auto
  have rng: "\<And>x. 0 \<le> max 0 (min (real (length (en_laneProfiles env)) - 1) x) \<and>
                 max 0 (min (real (length (en_laneProfiles env)) - 1) x)
                   \<le> real (length (en_laneProfiles env)) - 1"
    using n by auto
  show ?thesis
    using moveEgo_lane_cases [of env action] rng
    unfolding step_ego by metis
qed

theorem step_lane_index_clamped_witness:
  "en_laneProfiles env0 \<noteq> [] \<and> ego_laneIndex (en_ego env0) = 0 \<and>
   ego_laneIndex (en_ego (snd (step env0 (coast\<lparr>ac_requestedLaneIndex := Some (- 40)\<rparr>)))) = 0"
proof -
  have h: "en_laneProfiles env0 \<noteq> []" by code_simp
  have e: "ego_laneIndex (en_ego env0) = 0" by code_simp
  have l: "length (en_laneProfiles env0) = 5" by code_simp
  have s: "ego_laneIndex (en_ego (snd (step env0 (coast\<lparr>ac_requestedLaneIndex := Some (- 40)\<rparr>)))) = 0"
    by code_simp
  from step_lane_index_clamped [OF h, of "coast\<lparr>ac_requestedLaneIndex := Some (- 40)\<rparr>"] h e s
  show ?thesis by simp
qed

lemma step_traffic:
  "en_traffic (snd (step env action)) = updateTraffic (timeStepSeconds (en_config env)) (en_traffic env)"
  by (simp add: step_def Let_def)

lemma step_collision_flag:
  "sr_collisions (fst (step env action)) = (if detectCollision (snd (step env action)) then 1 else 0)"
  by (simp add: step_def Let_def detectCollision_def)

lemma step_done:
  "sr_done (fst (step env action)) =
     (detectCollision (snd (step env action)) \<or>
      en_elapsedSeconds env + timeStepSeconds (en_config env) \<ge> maxEpisodeSeconds (en_config env))"
  by (simp add: step_def Let_def detectCollision_def)

lemma step_collisionPenalty:
  "rw_collisionPenalty (sr_reward (fst (step env action))) =
     (if detectCollision (snd (step env action)) then - 25 else 0) +
     (if \<bar>requestedLane env action - ego_laneIndex (en_ego env)\<bar> > 0.5 then - 0.2 else 0)"
  by (simp add: step_def Let_def detectCollision_def computeReward_def)

lemma moveEgo_same_lane:
  assumes "requestedLane env action = ego_laneIndex (en_ego env)"
  shows "ego_laneIndex (moveEgo env action) = ego_laneIndex (en_ego env)"
    and "ego_laneOffset (moveEgo env action) = ego_laneOffset (en_ego env) * 0.8"
    and "ego_positionZ (moveEgo env action) =
           ego_positionZ (en_ego env) + ego_speedMps (moveEgo env action) * timeStepSeconds (en_config env)"
  using assms by (simp_all add: moveEgo_def Let_def)

text \<open>
  C6 (as stated, refuted). A vehicle exactly at the ego's position in the ego's lane,
  with the requested lane equal to the current lane, does not always end the episode:
  at 1300 m the vehicle is dropped by the 1200 m cut of the traffic update before the
  collision test; a motorcycle at 74 mph next to a standing ego has moved 6.6 m away,
  beyond the 6.4 m collision distance, when the test runs; and with a time step of
  0.55 s an ego 1.65 m off the lane centre is still 1.32 m off after the step, beyond
  the 1.3 m lateral reach of a standing motorcycle at its position.
\<close>

theorem step_misses_collision:
  "ev_positionZ (hd (en_traffic envFar)) = ego_positionZ (en_ego envFar) \<and>
   ev_laneIndex (hd (en_traffic envFar)) = ego_laneIndex (en_ego envFar) \<and>
   requestedLane envFar coast = ego_laneIndex (en_ego envFar) \<and>
   sr_done (fst (step envFar coast)) = False \<and>
   rw_collisionPenalty (sr_reward (fst (step envFar coast))) = 0 \<and>
   ev_positionZ (hd (en_traffic envFast)) = ego_positionZ (en_ego envFast) \<and>
   ev_laneIndex (hd (en_traffic envFast)) = ego_laneIndex (en_ego envFast) \<and>
   requestedLane envFast coast = ego_laneIndex (en_ego envFast) \<and>
   sr_done (fst (step envFast coast)) = False \<and>
   rw_collisionPenalty (sr_reward (fst (step envFast coast))) = 0 \<and>
   ev_positionZ (hd (en_traffic envDrift)) = ego_positionZ (en_ego envDrift) \<and>
   ev_laneIndex (hd (en_traffic envDrift)) = ego_laneIndex (en_ego envDrift) \<and>
   requestedLane envDrift coast = ego_laneIndex (en_ego envDrift) \<and>
   sr_done (fst (step envDrift coast)) = False \<and>
   rw_collisionPenalty (sr_reward (fst (step envDrift coast))) = 0"
  by code_simp

text \<open>
  C6 (amended). Let a traffic vehicle sit at the ego's longitudinal position in the
  ego's lane when the step is called, with the requested lane equal to the current
  lane. If the vehicle's advanced position stays below 1200 m, if vehicle and ego drift
  apart during the step by at most the collision distance (2.3 m + half the vehicle's
  length + 3 m), and if 0.8 times the ego's lateral offset is below 0.9 m + half the
  vehicle's width, then the step returns done and a collision penalty component of -25.
\<close>

theorem step_detects_collision:
  assumes "v \<in> set (en_traffic env)"
    and "ev_laneIndex v = ego_laneIndex (en_ego env)"
    and "ev_positionZ v = ego_positionZ (en_ego env)"
    and "requestedLane env action = ego_laneIndex (en_ego env)"
    and "ev_positionZ v + ev_speedMps v * timeStepSeconds (en_config env) < 1200"
    and "\<bar>ev_speedMps v - ego_speedMps (moveEgo env action)\<bar> * \<bar>timeStepSeconds (en_config env)\<bar>
           \<le> 2.3 + ev_lengthMeters v * 0.5 + 3"
    and "\<bar>ego_laneOffset (en_ego env)\<bar> * 0.8 < 0.9 + ev_widthMeters v * 0.5"
  shows "sr_done (fst (step env action)) \<and>
         rw_collisionPenalty (sr_reward (fst (step env action))) = - 25 \<and>
         sr_collisions (fst (step env action)) = 1"
proof -
  let ?dt = "timeStepSeconds (en_config env)"
  let ?v' = "v\<lparr>ev_positionZ := ev_positionZ v + ev_speedMps v * ?dt\<rparr>"
  have mem: "?v' \<in> set (en_traffic (snd (step env action)))"
    using assms(1,5) by (auto simp: step_traffic updateTraffic_def)
  have sep: "ev_positionZ ?v' - ego_positionZ (moveEgo env action) =
               (ev_speedMps v - ego_speedMps (moveEgo env action)) * ?dt"
    using moveEgo_same_lane(3) [OF assms(4)] assms(3) by (simp add: algebra_simps)
  have "collides (moveEgo env action) ?v'"
    unfolding collides_def sep abs_mult
    using assms(2,6,7) moveEgo_same_lane(1,2) [OF assms(4)] by (simp add: abs_mult)
  with mem have "detectCollision (snd (step env action))"
    unfolding detectCollision_def list_ex_iff step_ego by blast
  then show ?thesis
    using assms(4) by (simp add: step_done step_collisionPenalty step_collision_flag)
qed

theorem step_detects_collision_witness:
  "hd (en_traffic envNear) \<in> set (en_traffic envNear) \<and>
   ev_positionZ (hd (en_traffic envNear)) = ego_positionZ (en_ego envNear) \<and>
   ev_laneIndex (hd (en_traffic envNear)) = ego_laneIndex (en_ego envNear) \<and>
   sr_done (fst (step envNear coast)) \<and>
   rw_collisionPenalty (sr_reward (fst (step envNear coast))) = - 25"
proof -
  have 1: "hd (en_traffic envNear) \<in> set (en_traffic envNear)" by code_simp
  have 2: "ev_laneIndex (hd (en_traffic envNear)) = ego_laneIndex (en_ego envNear)" by code_simp
  have 3: "ev_positionZ (hd (en_traffic envNear)) = ego_positionZ (en_ego envNear)" by code_simp
  have 4: "requestedLane envNear coast = ego_laneIndex (en_ego envNear)" by code_simp
  have 5: "ev_positionZ (hd (en_traffic envNear)) +
             ev_speedMps (hd (en_traffic envNear)) * timeStepSeconds (en_config envNear) < 1200"
    by code_simp
  have 6: "\<bar>ev_speedMps (hd (en_traffic envNear)) - ego_speedMps (moveEgo envNear coast)\<bar> *
             \<bar>timeStepSeconds (en_config envNear)\<bar>
           \<le> 2.3 + ev_lengthMeters (hd (en_traffic envNear)) * 0.5 + 3"
    by code_simp
  have 7: "\<bar>ego_laneOffset (en_ego envNear)\<bar> * 0.8 < 0.9 + ev_widthMeters (hd (en_traffic envNear)) * 0.5"
    by code_simp
  from step_detects_collision [OF 1 2 3 4 5 6 7] 1 2 3 show ?thesis by simp
qed

text \<open>
  C7 (as stated, refuted). Steering for lane 1 from lane 0 without any collision, the
  reported collision penalty component is -0.2, not 0: the breakdown has no component
  of its own for lane discipline and reports it inside the collision penalty. With a
  gap target of 0 and no vehicle ahead, the reported gap keeping is 0, not -1.2: the
  gap terms are skipped altogether when the gap target is not positive.
\<close>

theorem reward_differs_from_spec_formula:
  "sr_collisions (fst (step env0 (coast\<lparr>ac_requestedLaneIndex := Some 1\<rparr>))) = 0 \<and>
   rw_collisionPenalty (sr_reward (fst (step env0 (coast\<lparr>ac_requestedLaneIndex := Some 1\<rparr>)))) = - (1 / 5) \<and>
   sp_collisionPenalty (specRewardOfStep env0 (coast\<lparr>ac_requestedLaneIndex := Some 1\<rparr>)) = 0 \<and>
   dm_cruiseGapMeters (en_mission envNoGap) = 0 \<and>
   rw_gapKeeping (sr_reward (fst (step envNoGap coast))) = 0 \<and>
   sp_gapKeeping (specRewardOfStep envNoGap coast) = - (6 / 5)"
  by code_simp

lemma step_observation:
  "sr_observation (fst (step env action)) = buildObservation (snd (step env action))"
  by (simp add: step_def Let_def)

lemma step_mission: "en_mission (snd (step env action)) = en_mission env"
  by (simp add: step_def Let_def)

lemma step_config: "en_config (snd (step env action)) = en_config env"
  by (simp add: step_def Let_def)

lemma step_reward:
  "sr_reward (fst (step env action)) =
     computeReward (snd (step env action)) (sr_observation (fst (step env action)))
       (detectCollision (snd (step env action)))
       (netAcceleration (en_config env) action)
       (requestedLane env action - ego_laneIndex (en_ego env))"
  by (simp add: step_def Let_def detectCollision_def)

lemma buildObservation_ego:
  "ob_laneIndex (buildObservation e) = ego_laneIndex (en_ego e)"
  "ob_laneOffsetMeters (buildObservation e) = ego_laneOffset (en_ego e)"
  "ob_speedMps (buildObservation e) = ego_speedMps (en_ego e)"
  by (simp_all add: buildObservation_def Let_def)

text \<open>
  C7 (amended). For every step the reported breakdown is: progress, lane keeping,
  comfort, rule compliance and cruise tracking as in the specification's formula, read
  on the ego after the step; gap keeping as in the formula when the mission's gap target
  is positive, and 0 otherwise; the collision penalty component is the sum of -25 on a
  collision and of -0.2 when the requested lane differs from the lane index before the
  step by more than 0.5; the total is the sum of the seven reported components.
\<close>

theorem step_reward_breakdown:
  "(let r = sr_reward (fst (step env action));
        ob = sr_observation (fst (step env action));
        ego' = en_ego (snd (step env action));
        gapTarget = dm_cruiseGapMeters (en_mission env)
    in rw_progress r = ego_speedMps ego' * timeStepSeconds (en_config env) \<and>
       rw_laneKeeping r = - \<bar>ego_laneOffset ego'\<bar> * 0.1 +
          (case dm_targetLaneIndex (en_mission env) of
             None \<Rightarrow> 0
           | Some targetLane \<Rightarrow> - 0.35 * \<bar>targetLane - ego_laneIndex ego'\<bar>) \<and>
       rw_comfort r = - \<bar>netAcceleration (en_config env) action\<bar> * 0.05 \<and>
       rw_ruleCompliance r =
          (if ego_speedMps ego' \<le> 1.1 * ob_targetSpeedMps ob then 0.2 else - 0.4) \<and>
       rw_cruiseTracking r =
          - \<bar>ego_speedMps ego' - dm_cruiseTargetSpeedMps (en_mission env)\<bar> * 0.04 \<and>
       rw_gapKeeping r =
          (if gapTarget > 0
           then - \<bar>gapTarget - ob_gapAheadMeters ob\<bar> * 0.01 +
                (if ob_gapAheadMeters ob < 0.6 * gapTarget then - 0.6 else 0)
           else 0) \<and>
       rw_collisionPenalty r =
          (if detectCollision (snd (step env action)) then - 25 else 0) +
          (if \<bar>requestedLane env action - ego_laneIndex (en_ego env)\<bar> > 0.5 then - 0.2 else 0) \<and>
       rw_total r = rw_progress r + rw_laneKeeping r + rw_comfort r + rw_ruleCompliance r +
                    rw_cruiseTracking r + rw_gapKeeping r + rw_collisionPenalty r)"
  unfolding Let_def step_reward step_observation
  by (simp add: computeReward_def Let_def buildObservation_ego step_mission step_config
      split: option.splits)

end
